theory Spec2Isabelle
  imports Complex_Main "HOL-Library.Sublist"
begin

section \<open>The conversion script \<open>backend/scripts/convert_stl_to_fbx.py\<close>\<close>

text \<open>
  The script runs inside a 3D-content host. It reads two paths from the command line,
  clears the host's scene, imports the first path, exports the scene to the second path
  and prints a report. The model below follows the module body line by line. The host's
  operators are not part of the repository: the script is modelled over an arbitrary
  host (a record of operators), and the trace of a run records, in program order, every
  operator call, every \<open>os.path\<close> call and every printed line.
\<close>

subsection \<open>Data\<close>

type_synonym path = string
type_synonym bytes = string

text \<open>A scene object: its geometry is never inspected by the script; the host keeps a
  selection flag for each object.\<close>

record object =
  geometry :: bytes
  selected :: bool

text \<open>What the host and the operating system hold: the scene and the file system.\<close>

record host_state =
  scene :: "object list"
  files :: "path \<Rightarrow> bytes option"

text \<open>Exceptions. \<open>ValueError\<close>, \<open>IndexError\<close> and \<open>OSError\<close> are Python's own;
  \<open>ImportError\<close> and \<open>ExportError\<close> are the specification's names for a failure of the
  host's importer and exporter; \<open>RuntimeError\<close> is any other failure of an operator.\<close>

datatype error = ValueError | IndexError | OSError | ImportError | ExportError | RuntimeError

datatype select_action = TOGGLE | SELECT | DESELECT | INVERT

datatype export_format = GLB | GLTF_SEPARATE

text \<open>The four operators the script calls: \<open>bpy.ops.object.select_all(action)\<close>,
  \<open>bpy.ops.object.delete(use_global)\<close>, \<open>bpy.ops.wm.stl_import(filepath)\<close> and
  \<open>bpy.ops.export_scene.gltf(filepath, export_format)\<close>. Each either raises or returns
  with a new host state.\<close>

record bpy =
  object_select_all :: "select_action \<Rightarrow> host_state \<Rightarrow> error + host_state"
  object_delete :: "bool \<Rightarrow> host_state \<Rightarrow> error + host_state"
  wm_stl_import :: "path \<Rightarrow> host_state \<Rightarrow> error + host_state"
  export_scene_gltf :: "path \<Rightarrow> export_format \<Rightarrow> host_state \<Rightarrow> error + host_state"

datatype event =
    SelectAll select_action
  | Delete bool
  | StlImport path
  | ExportGltf path export_format
  | Print string
  | Exists path
  | GetSize path

text \<open>The result of a run: the uncaught exception, if any (\<open>None\<close> is a normal exit),
  the trace, and the final host state.\<close>

type_synonym result = "error option \<times> event list \<times> host_state"

subsection \<open>Python's list operations\<close>

text \<open>\<open>xs.index(x)\<close>: the first position of \<open>x\<close>, \<open>ValueError\<close> when there is none.\<close>

fun list_index :: "'a list \<Rightarrow> 'a \<Rightarrow> error + nat" where
  "list_index [] x = Inl ValueError"
| "list_index (y # ys) x =
     (if y = x then Inr 0
      else case list_index ys x of Inl e \<Rightarrow> Inl e | Inr i \<Rightarrow> Inr (Suc i))"

text \<open>\<open>xs[i]\<close> for \<open>i \<ge> 0\<close>: \<open>IndexError\<close> out of range.\<close>

definition getitem :: "'a list \<Rightarrow> nat \<Rightarrow> error + 'a" where
  "getitem xs i = (if i < length xs then Inr (xs ! i) else Inl IndexError)"

subsection \<open>Lines 5 to 9: the command line\<close>

text \<open>
  \<^verbatim>\<open>argv = sys.argv
  argv = argv[argv.index("--") + 1:]
  stl_path = argv[0]
  glb_path = argv[1]\<close>
  A slice never raises; it is \<open>drop\<close>.
\<close>

definition argv_paths :: "string list \<Rightarrow> error + path \<times> path" where
  "argv_paths sys_argv =
     (case list_index sys_argv ''--'' of
        Inl e \<Rightarrow> Inl e
      | Inr i \<Rightarrow>
          (let argv = drop (i + 1) sys_argv in
           case getitem argv 0 of
             Inl e \<Rightarrow> Inl e
           | Inr stl_path \<Rightarrow>
               (case getitem argv 1 of
                  Inl e \<Rightarrow> Inl e
                | Inr glb_path \<Rightarrow> Inr (stl_path, glb_path))))"

subsection \<open>Lines 23 to 27: the size report\<close>

text \<open>\<open>os.path.exists\<close> and \<open>os.path.getsize\<close> on the file system of the host state.\<close>

definition path_exists :: "host_state \<Rightarrow> path \<Rightarrow> bool" where
  "path_exists w p = (files w p \<noteq> None)"

definition path_getsize :: "host_state \<Rightarrow> path \<Rightarrow> error + nat" where
  "path_getsize w p = (case files w p of None \<Rightarrow> Inl OSError | Some b \<Rightarrow> Inr (length b))"

text \<open>\<open>n.bit_length()\<close>.\<close>

fun bit_length :: "nat \<Rightarrow> nat" where
  "bit_length n = (if n = 0 then 0 else Suc (bit_length (n div 2)))"

declare bit_length.simps [simp del]

text \<open>Division of naturals rounded to the nearest integer, an exact tie going to the
  even neighbour (the rounding of IEEE 754 and of Python's float formatting).\<close>

definition div_half_even :: "nat \<Rightarrow> nat \<Rightarrow> nat" where
  "div_half_even a b =
     (let q = a div b; r = a mod b in
      if 2 * r < b then q else if b < 2 * r then q + 1 else if even q then q else q + 1)"

text \<open>The double nearest to a natural number: the number rounded to 53 significant
  bits. A file size is an \<open>off_t\<close>, below \<open>2 ^ 63\<close>, so the double never overflows.\<close>

definition to_double :: "nat \<Rightarrow> nat" where
  "to_double n = (let s = bit_length n - 53 in div_half_even n (2 ^ s) * 2 ^ s)"

text \<open>
  \<^verbatim>\<open>file_size = os.path.getsize(glb_path) / (1024 * 1024)\<close>
  True division of two integers gives the double nearest to the quotient. The divisor is
  \<open>2 ^ 20\<close>, and a division by a power of two only changes the exponent of a double, so
  the result is the dividend rounded to a double, over \<open>2 ^ 20\<close>. The value of the double
  is kept as an exact rational.
\<close>

definition file_size_mb :: "nat \<Rightarrow> rat" where
  "file_size_mb n = of_nat (to_double n) / (1024 * 1024)"

text \<open>The digits of a natural number, as \<open>str\<close> prints them.\<close>

definition digit :: "nat \<Rightarrow> char" where
  "digit d = ''0123456789'' ! d"

fun decimal :: "nat \<Rightarrow> string" where
  "decimal n = (if n < 10 then [digit n] else decimal (n div 10) @ [digit (n mod 10)])"

declare decimal.simps [simp del]

text \<open>The number of hundredths that \<open>:.2f\<close> prints for a double that is not negative:
  the exact value of the double, times 100, rounded to the nearest integer, an exact tie
  going to the even neighbour.\<close>

definition hundredths :: "rat \<Rightarrow> nat" where
  "hundredths x =
     (let f = \<lfloor>x * 100\<rfloor>; d = x * 100 - of_int f in
      nat (if d < 1 / 2 then f else if 1 / 2 < d then f + 1 else if even f then f else f + 1))"

text \<open>\<^verbatim>\<open>f"{file_size:.2f}"\<close>\<close>

definition format_2f :: "rat \<Rightarrow> string" where
  "format_2f x =
     (let h = hundredths x in
      decimal (h div 100) @ ''.'' @ [digit (h mod 100 div 10), digit (h mod 10)])"

subsection \<open>The printed lines\<close>

text \<open>The three messages start with a symbol outside ASCII, written here as the bytes
  of its UTF-8 encoding (U+2705, U+1F4E6, U+274C).\<close>

definition success_msg :: "path \<Rightarrow> path \<Rightarrow> string" where
  "success_msg stl_path glb_path =
     [CHR 0xE2, CHR 0x9C, CHR 0x85] @ '' Successfully converted '' @ stl_path @ '' to '' @ glb_path"

definition size_msg :: "rat \<Rightarrow> string" where
  "size_msg file_size =
     [CHR 0xF0, CHR 0x9F, CHR 0x93, CHR 0xA6] @ '' GLB file size: '' @ format_2f file_size @ '' MB''"

definition not_found_msg :: string where
  "not_found_msg = [CHR 0xE2, CHR 0x9D, CHR 0x8C] @ '' Output file not found!''"

subsection \<open>Lines 11 to 27: the conversion\<close>

text \<open>
  \<^verbatim>\<open>bpy.ops.object.select_all(action='SELECT')
  bpy.ops.object.delete(use_global=False)
  bpy.ops.wm.stl_import(filepath=stl_path)
  bpy.ops.export_scene.gltf(filepath=glb_path, export_format='GLB')
  print(f"... Successfully converted {stl_path} to {glb_path}")
  if os.path.exists(glb_path):
      file_size = os.path.getsize(glb_path) / (1024 * 1024)
      print(f"... GLB file size: {file_size:.2f} MB")
  else:
      print("... Output file not found!")\<close>
  There is no \<open>try\<close> in the script: an exception raised by a call ends the run there,
  and the trace then ends with the call that raised. \<open>print\<close> is taken not to fail.
  The script's own comments divide it into clearing the existing objects (lines 11 to 13),
  the import, the export, and the report (lines 21 to 27).
\<close>

definition clear_existing_objects :: "bpy \<Rightarrow> host_state \<Rightarrow> result" where
  "clear_existing_objects h w0 =
     (case object_select_all h SELECT w0 of
        Inl e \<Rightarrow> (Some e, [SelectAll SELECT], w0)
      | Inr w1 \<Rightarrow>
          (case object_delete h False w1 of
             Inl e \<Rightarrow> (Some e, [SelectAll SELECT, Delete False], w1)
           | Inr w2 \<Rightarrow> (None, [SelectAll SELECT, Delete False], w2)))"

definition report :: "path \<Rightarrow> path \<Rightarrow> host_state \<Rightarrow> error option \<times> event list" where
  "report stl_path glb_path w =
     (let t = [Print (success_msg stl_path glb_path), Exists glb_path] in
      if path_exists w glb_path then
        (case path_getsize w glb_path of
           Inl e \<Rightarrow> (Some e, t @ [GetSize glb_path])
         | Inr n \<Rightarrow> (None, t @ [GetSize glb_path, Print (size_msg (file_size_mb n))]))
      else (None, t @ [Print not_found_msg]))"

definition convert :: "bpy \<Rightarrow> path \<Rightarrow> path \<Rightarrow> host_state \<Rightarrow> result" where
  "convert h stl_path glb_path w0 =
     (case clear_existing_objects h w0 of
        (Some e, t, w) \<Rightarrow> (Some e, t, w)
      | (None, t, w2) \<Rightarrow>
          (case wm_stl_import h stl_path w2 of
             Inl e \<Rightarrow> (Some e, t @ [StlImport stl_path], w2)
           | Inr w3 \<Rightarrow>
               (case export_scene_gltf h glb_path GLB w3 of
                  Inl e \<Rightarrow> (Some e, t @ [StlImport stl_path, ExportGltf glb_path GLB], w3)
                | Inr w4 \<Rightarrow>
                    (case report stl_path glb_path w4 of
                       (r, t') \<Rightarrow>
                         (r, t @ [StlImport stl_path, ExportGltf glb_path GLB] @ t', w4)))))"

text \<open>The whole module body: the command line, then the conversion.\<close>

definition script :: "bpy \<Rightarrow> string list \<Rightarrow> host_state \<Rightarrow> result" where
  "script h sys_argv w0 =
     (case argv_paths sys_argv of
        Inl e \<Rightarrow> (Some e, [], w0)
      | Inr (stl_path, glb_path) \<Rightarrow> convert h stl_path glb_path w0)"

text \<open>The lines a run printed, in order.\<close>

fun printed :: "event list \<Rightarrow> string list" where
  "printed [] = []"
| "printed (Print s # t) = s # printed t"
| "printed (_ # t) = printed t"

subsection \<open>The host\<close>

text \<open>Modelled from the spec: the format-specific parts of the host's importer and
  exporter, which the repository calls and does not contain. They are parameters: which
  paths can be read and written, what the importer makes of a file's bytes (\<open>None\<close> when
  it cannot parse them), and what the exporter writes for a scene (\<open>None\<close> when the
  target format cannot represent it).\<close>

record codec =
  readable :: "path \<Rightarrow> bool"
  parse_stl :: "bytes \<Rightarrow> object list option"
  writable :: "path \<Rightarrow> bool"
  encode_gltf :: "export_format \<Rightarrow> object list \<Rightarrow> bytes option"

text \<open>Modelled from the spec: the host capability scene-clear, first half. The operator
  \<open>select_all\<close> is missing from the repository; with \<open>SELECT\<close> it selects every object
  held by the scene (the other actions are not used by the script).\<close>

definition host_select_all :: "select_action \<Rightarrow> host_state \<Rightarrow> error + host_state" where
  "host_select_all a w =
     Inr (w\<lparr>scene :=
       map (\<lambda>ob. ob\<lparr>selected :=
              (case a of
                 SELECT \<Rightarrow> True
               | DESELECT \<Rightarrow> False
               | INVERT \<Rightarrow> \<not> selected ob
               | TOGGLE \<Rightarrow> list_all (\<lambda>ob'. \<not> selected ob') (scene w))\<rparr>)
         (scene w)\<rparr>)"

text \<open>Modelled from the spec: the host capability scene-clear, second half. The operator
  \<open>delete\<close> is missing from the repository; it removes the selected objects from the
  scene (there is one scene, so \<open>use_global\<close> makes no difference).\<close>

definition host_delete :: "bool \<Rightarrow> host_state \<Rightarrow> error + host_state" where
  "host_delete use_global w = Inr (w\<lparr>scene := filter (\<lambda>ob. \<not> selected ob) (scene w)\<rparr>)"

text \<open>Modelled from the spec: the host capability import, missing from the repository.
  It fails with \<open>ImportError\<close> when the source file is missing, unreadable or not valid
  for its format, and otherwise adds the parsed objects to the scene.\<close>

definition host_stl_import :: "codec \<Rightarrow> path \<Rightarrow> host_state \<Rightarrow> error + host_state" where
  "host_stl_import c p w =
     (case files w p of
        None \<Rightarrow> Inl ImportError
      | Some b \<Rightarrow>
          if \<not> readable c p then Inl ImportError
          else (case parse_stl c b of
                  None \<Rightarrow> Inl ImportError
                | Some obs \<Rightarrow> Inr (w\<lparr>scene := scene w @ obs\<rparr>)))"

text \<open>Modelled from the spec: the host capability export, missing from the repository.
  It fails with \<open>ExportError\<close> when the path is not writable or the target format cannot
  represent the scene, and otherwise writes the encoded scene to the path, replacing
  what was there.\<close>

definition host_export_gltf ::
    "codec \<Rightarrow> path \<Rightarrow> export_format \<Rightarrow> host_state \<Rightarrow> error + host_state" where
  "host_export_gltf c p fmt w =
     (if \<not> writable c p then Inl ExportError
      else (case encode_gltf c fmt (scene w) of
              None \<Rightarrow> Inl ExportError
            | Some b \<Rightarrow> Inr (w\<lparr>files := (files w)(p \<mapsto> b)\<rparr>)))"

text \<open>Modelled from the spec: the host as the specification describes it, for a given
  codec.\<close>

definition spec_host :: "codec \<Rightarrow> bpy" where
  "spec_host c =
     \<lparr>object_select_all = host_select_all,
      object_delete = host_delete,
      wm_stl_import = host_stl_import c,
      export_scene_gltf = host_export_gltf c\<rparr>"

subsection \<open>A small host and state, for concrete runs\<close>

text \<open>A toy codec: a source file is valid when it starts with \<open>solid\<close>, and gives one
  object; the container is a magic word followed by the objects' geometry.\<close>

definition example_codec :: codec where
  "example_codec =
     \<lparr>readable = (\<lambda>p. True),
      parse_stl = (\<lambda>b. if take 5 b = ''solid''
                        then Some [\<lparr>geometry = b, selected = True\<rparr>] else None),
      writable = (\<lambda>p. True),
      encode_gltf = (\<lambda>fmt obs. Some (''glTF'' @ concat (map geometry obs)))\<rparr>"

definition example_host :: bpy where
  "example_host = spec_host example_codec"

text \<open>The same host with the exporter mocked: it returns without writing a file.\<close>

definition mocked_export_host :: bpy where
  "mocked_export_host = example_host\<lparr>export_scene_gltf := (\<lambda>p fmt w. Inr w)\<rparr>"

text \<open>A state with one object left in the scene and one source file.\<close>

definition example_state :: host_state where
  "example_state =
     \<lparr>scene = [\<lparr>geometry = ''cube'', selected = False\<rparr>],
      files = [''in.stl'' \<mapsto> ''solid tri'']\<rparr>"

section \<open>The command line\<close>

lemma list_index_absent: "x \<notin> set xs \<Longrightarrow> list_index xs x = Inl ValueError"
  by (induction xs) auto

lemma list_index_first: "x \<notin> set pre \<Longrightarrow> list_index (pre @ x # ys) x = Inr (length pre)"
  by (induction pre) auto

lemma list_index_Inr:
  "list_index xs x = Inr i \<Longrightarrow> i < length xs \<and> xs ! i = x \<and> x \<notin> set (take i xs)"
proof (induction xs arbitrary: i)
  case Nil
  then show ?case by simp
next
  case (Cons y ys)
  show ?case
  proof (cases "y = x")
    case True
    with Cons.prems show ?thesis by simp
  next
    case False
    with Cons.prems obtain j where j: "list_index ys x = Inr j" and i: "i = Suc j"
      by (auto split: sum.splits)
    from Cons.IH [OF j] False i show ?thesis by simp
  qed
qed

lemma list_index_error: "list_index xs x = Inl e \<Longrightarrow> e = ValueError \<and> x \<notin> set xs"
  by (induction xs) (auto split: if_splits sum.splits)

lemma getitem_0: "getitem xs 0 = (case xs of [] \<Rightarrow> Inl IndexError | x # _ \<Rightarrow> Inr x)"
  by (cases xs) (simp_all add: getitem_def)

lemma getitem_1:
  "getitem xs (Suc 0) = (case xs of [] \<Rightarrow> Inl IndexError | x # ys \<Rightarrow>
     (case ys of [] \<Rightarrow> Inl IndexError | y # _ \<Rightarrow> Inr y))"
  by (cases xs; cases "tl xs") (auto simp add: getitem_def)

lemma argv_paths_after:
  "''--'' \<notin> set pre \<Longrightarrow>
   argv_paths (pre @ ''--'' # rest) =
     (case rest of [] \<Rightarrow> Inl IndexError | s # ys \<Rightarrow>
        (case ys of [] \<Rightarrow> Inl IndexError | g # _ \<Rightarrow> Inr (s, g)))"
  by (simp add: argv_paths_def list_index_first getitem_0 getitem_1 split: list.splits)

lemma argv_paths_found:
  "''--'' \<notin> set pre \<Longrightarrow> argv_paths (pre @ ''--'' # s # g # rest) = Inr (s, g)"
  by (simp add: argv_paths_after)

lemma argv_paths_no_separator: "''--'' \<notin> set a \<Longrightarrow> argv_paths a = Inl ValueError"
  by (simp add: argv_paths_def list_index_absent)

lemma argv_paths_too_few:
  "''--'' \<notin> set pre \<Longrightarrow> length rest < 2 \<Longrightarrow> argv_paths (pre @ ''--'' # rest) = Inl IndexError"
  by (cases rest; cases "tl rest") (auto simp add: argv_paths_after)

lemma argv_paths_shape:
  assumes "argv_paths a = Inr (s, g)"
  shows "\<exists>pre rest. a = pre @ ''--'' # s # g # rest \<and> ''--'' \<notin> set pre"
proof -
  from assms obtain i where i: "list_index a ''--'' = Inr i"
    by (auto simp add: argv_paths_def split: sum.splits)
  from list_index_Inr [OF i]
  have a: "a = take i a @ ''--'' # drop (Suc i) a" and pre: "''--'' \<notin> set (take i a)"
    using id_take_nth_drop [of i a] by auto
  from assms have "argv_paths (take i a @ ''--'' # drop (Suc i) a) = Inr (s, g)"
    using a by simp
  with pre obtain rest where "drop (Suc i) a = s # g # rest"
    by (auto simp add: argv_paths_after split: list.splits)
  with a pre show ?thesis by metis
qed

text \<open>
  C9: when the command line has no \<open>--\<close>, the script ends with \<open>ValueError\<close>; when
  fewer than two arguments follow the first \<open>--\<close>, it ends with \<open>IndexError\<close>. In both
  cases the trace is empty and the host state is the initial one: no operator was
  called, so nothing was cleared, imported or exported.
\<close>

theorem script_bad_command_line:
  "(''--'' \<notin> set sys_argv \<longrightarrow> script h sys_argv w = (Some ValueError, [], w)) \<and>
   (''--'' \<notin> set pre \<and> length rest < 2 \<longrightarrow>
      script h (pre @ ''--'' # rest) w = (Some IndexError, [], w))"
  by (simp add: script_def argv_paths_no_separator argv_paths_too_few)

theorem script_bad_command_line_witness:
  "script example_host [''blender'', ''in.stl'', ''out.glb''] example_state =
     (Some ValueError, [], example_state) \<and>
   script example_host [''blender'', ''--'', ''in.stl''] example_state =
     (Some IndexError, [], example_state)"
  using script_bad_command_line [where sys_argv = "[''blender'', ''in.stl'', ''out.glb'']"
      and pre = "[''blender'']" and rest = "[''in.stl'']" and h = example_host
      and w = example_state]
  by simp

text \<open>
  C10: two command lines that agree on the two arguments after their first \<open>--\<close> give the
  same run (same exception or normal exit, same trace, same final state) from the same
  host state: further arguments after the two paths have no effect.
\<close>

theorem script_ignores_other_arguments:
  "''--'' \<notin> set pre1 \<Longrightarrow> ''--'' \<notin> set pre2 \<Longrightarrow>
   script h (pre1 @ ''--'' # s # g # rest1) w = script h (pre2 @ ''--'' # s # g # rest2) w"
  by (simp add: script_def argv_paths_found)

theorem script_ignores_other_arguments_witness:
  "script example_host [''blender'', ''--'', ''in.stl'', ''out.glb'', ''x'', ''y''] example_state =
   script example_host [''blender'', ''--'', ''in.stl'', ''out.glb''] example_state"
  using script_ignores_other_arguments [where ?pre1.0 = "[''blender'']"
      and ?pre2.0 = "[''blender'']" and s = "''in.stl''" and g = "''out.glb''"
      and ?rest1.0 = "[''x'', ''y'']" and ?rest2.0 = "[]" and h = example_host
      and w = example_state]
  by simp

section \<open>The conversion over any host\<close>

lemma clear_existing_objects_ok:
  "object_select_all h SELECT w0 = Inr w1 \<Longrightarrow> object_delete h False w1 = Inr w2 \<Longrightarrow>
   clear_existing_objects h w0 = (None, [SelectAll SELECT, Delete False], w2)"
  by (simp add: clear_existing_objects_def)

lemma report_absent:
  "files w g = None \<Longrightarrow>
   report s g w = (None, [Print (success_msg s g), Exists g, Print not_found_msg])"
  by (simp add: report_def path_exists_def)

lemma report_present:
  "files w g = Some b \<Longrightarrow>
   report s g w =
     (None, [Print (success_msg s g), Exists g, GetSize g,
             Print (size_msg (file_size_mb (length b)))])"
  by (simp add: report_def path_exists_def path_getsize_def)

lemma convert_ok:
  assumes "object_select_all h SELECT w0 = Inr w1" and "object_delete h False w1 = Inr w2"
    and "wm_stl_import h s w2 = Inr w3" and "export_scene_gltf h g GLB w3 = Inr w4"
  shows "convert h s g w0 =
     (fst (report s g w4),
      [SelectAll SELECT, Delete False, StlImport s, ExportGltf g GLB] @ snd (report s g w4),
      w4)"
  using assms by (simp add: convert_def clear_existing_objects_ok split: prod.splits)

lemma convert_import_raises:
  assumes "object_select_all h SELECT w0 = Inr w1" and "object_delete h False w1 = Inr w2"
    and "wm_stl_import h s w2 = Inl e"
  shows "convert h s g w0 = (Some e, [SelectAll SELECT, Delete False, StlImport s], w2)"
  using assms by (simp add: convert_def clear_existing_objects_ok)

lemma report_completes: "fst (report s g w) = None"
  by (cases "files w g") (simp_all add: report_absent report_present)

lemma convert_completes_only_if:
  assumes "fst (convert h s g w0) = None"
  shows "\<exists>w1 w2 w3 w4.
     object_select_all h SELECT w0 = Inr w1 \<and> object_delete h False w1 = Inr w2 \<and>
     wm_stl_import h s w2 = Inr w3 \<and> export_scene_gltf h g GLB w3 = Inr w4"
  using assms
  by (auto simp add: convert_def clear_existing_objects_def split: sum.splits prod.splits)

lemma messages_distinct:
  "not_found_msg \<noteq> size_msg x" "not_found_msg \<noteq> success_msg p q"
  by (simp_all add: not_found_msg_def size_msg_def success_msg_def)

lemmas example_defs =
  mocked_export_host_def example_host_def spec_host_def host_select_all_def host_delete_def
  host_stl_import_def host_export_gltf_def example_codec_def example_state_def

text \<open>
  C1: when every operator returns and the destination file does not exist after the
  export, the run ends normally (no exception), and its last action is to print the
  "output not found" line, which differs from the size line and from the success line.
  This is the only condition the script handles: a run ends normally only if none of the
  four operators raised.
\<close>

theorem convert_output_missing:
  "(object_select_all h SELECT w0 = Inr w1 \<and> object_delete h False w1 = Inr w2 \<and>
    wm_stl_import h stl w2 = Inr w3 \<and> export_scene_gltf h glb GLB w3 = Inr w4 \<and>
    \<not> path_exists w4 glb \<longrightarrow>
      convert h stl glb w0 =
        (None,
         [SelectAll SELECT, Delete False, StlImport stl, ExportGltf glb GLB,
          Print (success_msg stl glb), Exists glb, Print not_found_msg],
         w4)) \<and>
   not_found_msg \<noteq> size_msg x \<and> not_found_msg \<noteq> success_msg p q \<and>
   (fst (convert h' s' g' w') = None \<longrightarrow>
      (\<exists>v1 v2 v3 v4.
         object_select_all h' SELECT w' = Inr v1 \<and> object_delete h' False v1 = Inr v2 \<and>
         wm_stl_import h' s' v2 = Inr v3 \<and> export_scene_gltf h' g' GLB v3 = Inr v4))"
  using convert_completes_only_if [of h' s' g' w']
  by (simp add: convert_ok report_absent path_exists_def messages_distinct)

theorem convert_output_missing_witness:
  "fst (convert mocked_export_host ''in.stl'' ''out.glb'' example_state) = None \<and>
   printed (fst (snd (convert mocked_export_host ''in.stl'' ''out.glb'' example_state))) =
     [success_msg ''in.stl'' ''out.glb'', not_found_msg]"
  using convert_output_missing [where h = mocked_export_host and ?w0.0 = example_state
      and stl = "''in.stl''" and glb = "''out.glb''"
      and ?w1.0 = "\<lparr>scene = [\<lparr>geometry = ''cube'', selected = True\<rparr>],
                     files = [''in.stl'' \<mapsto> ''solid tri'']\<rparr>"
      and ?w2.0 = "\<lparr>scene = [], files = [''in.stl'' \<mapsto> ''solid tri'']\<rparr>"
      and ?w3.0 = "\<lparr>scene = [\<lparr>geometry = ''solid tri'', selected = True\<rparr>],
                     files = [''in.stl'' \<mapsto> ''solid tri'']\<rparr>"
      and ?w4.0 = "\<lparr>scene = [\<lparr>geometry = ''solid tri'', selected = True\<rparr>],
                     files = [''in.stl'' \<mapsto> ''solid tri'']\<rparr>"]
  by (simp add: example_defs path_exists_def)

lemma convert_trace_shape:
  "prefix (fst (snd (convert h stl glb w0)))
     [SelectAll SELECT, Delete False, StlImport stl, ExportGltf glb GLB] \<or>
   (\<exists>tail. fst (snd (convert h stl glb w0)) =
        [SelectAll SELECT, Delete False, StlImport stl, ExportGltf glb GLB,
         Print (success_msg stl glb), Exists glb] @ tail \<and>
      (tail = [Print not_found_msg] \<or> (\<exists>x. tail = [GetSize glb, Print (size_msg x)])))"
proof (cases "object_select_all h SELECT w0")
  case (Inl e)
  then show ?thesis by (simp add: convert_def clear_existing_objects_def)
next
  case w1: (Inr w1)
  show ?thesis
  proof (cases "object_delete h False w1")
    case (Inl e)
    with w1 show ?thesis by (simp add: convert_def clear_existing_objects_def)
  next
    case w2: (Inr w2)
    show ?thesis
    proof (cases "wm_stl_import h stl w2")
      case (Inl e)
      with w1 w2 show ?thesis by (simp add: convert_import_raises)
    next
      case w3: (Inr w3)
      show ?thesis
      proof (cases "export_scene_gltf h glb GLB w3")
        case (Inl e)
        with w1 w2 w3 show ?thesis by (simp add: convert_def clear_existing_objects_ok)
      next
        case w4: (Inr w4)
        show ?thesis
          using convert_ok [OF w1 w2 w3 w4]
          by (cases "files w4 glb") (auto simp add: report_absent report_present)
      qed
    qed
  qed
qed

text \<open>
  C5: the steps come in the order clear (select all, delete), import from the source
  path, export to the destination path, print the success line, test the destination's
  existence, and then print either the size line or the "output not found" line. The
  trace of every run is a prefix of the four operator calls or continues them in exactly
  this way; the success line contains both paths; and it is printed before the existence
  test, so also when the destination file is absent.
\<close>

theorem convert_step_order:
  "(prefix (fst (snd (convert h stl glb w0)))
      [SelectAll SELECT, Delete False, StlImport stl, ExportGltf glb GLB] \<or>
    (\<exists>tail. fst (snd (convert h stl glb w0)) =
         [SelectAll SELECT, Delete False, StlImport stl, ExportGltf glb GLB,
          Print (success_msg stl glb), Exists glb] @ tail \<and>
       (tail = [Print not_found_msg] \<or> (\<exists>x. tail = [GetSize glb, Print (size_msg x)])))) \<and>
   (object_select_all h SELECT w0 = Inr w1 \<and> object_delete h False w1 = Inr w2 \<and>
    wm_stl_import h stl w2 = Inr w3 \<and> export_scene_gltf h glb GLB w3 = Inr w4 \<longrightarrow>
      (files w4 glb = None \<longrightarrow>
         fst (snd (convert h stl glb w0)) =
           [SelectAll SELECT, Delete False, StlImport stl, ExportGltf glb GLB,
            Print (success_msg stl glb), Exists glb, Print not_found_msg]) \<and>
      (\<forall>b. files w4 glb = Some b \<longrightarrow>
         fst (snd (convert h stl glb w0)) =
           [SelectAll SELECT, Delete False, StlImport stl, ExportGltf glb GLB,
            Print (success_msg stl glb), Exists glb, GetSize glb,
            Print (size_msg (file_size_mb (length b)))])) \<and>
   (\<exists>a b. success_msg stl glb = a @ stl @ b @ glb)"
proof -
  have "\<exists>a b. success_msg stl glb = a @ stl @ b @ glb"
    unfolding success_msg_def
    by (intro exI [of _ "[CHR 0xE2, CHR 0x9C, CHR 0x85] @ '' Successfully converted ''"]
        exI [of _ "'' to ''"]) simp
  then show ?thesis
    using convert_trace_shape [of h stl glb w0]
    by (simp add: convert_ok report_absent report_present)
qed

theorem convert_step_order_witness:
  "fst (snd (convert mocked_export_host ''in.stl'' ''out.glb'' example_state)) =
     [SelectAll SELECT, Delete False, StlImport ''in.stl'', ExportGltf ''out.glb'' GLB,
      Print (success_msg ''in.stl'' ''out.glb''), Exists ''out.glb'', Print not_found_msg] \<and>
   fst (snd (convert example_host ''in.stl'' ''out.glb'' example_state)) =
     [SelectAll SELECT, Delete False, StlImport ''in.stl'', ExportGltf ''out.glb'' GLB,
      Print (success_msg ''in.stl'' ''out.glb''), Exists ''out.glb'', GetSize ''out.glb'',
      Print (size_msg (file_size_mb (length ''glTFsolid tri'')))]"
  using convert_step_order [where h = mocked_export_host and ?w0.0 = example_state
      and stl = "''in.stl''" and glb = "''out.glb''"
      and ?w1.0 = "\<lparr>scene = [\<lparr>geometry = ''cube'', selected = True\<rparr>],
                     files = [''in.stl'' \<mapsto> ''solid tri'']\<rparr>"
      and ?w2.0 = "\<lparr>scene = [], files = [''in.stl'' \<mapsto> ''solid tri'']\<rparr>"
      and ?w3.0 = "\<lparr>scene = [\<lparr>geometry = ''solid tri'', selected = True\<rparr>],
                     files = [''in.stl'' \<mapsto> ''solid tri'']\<rparr>"
      and ?w4.0 = "\<lparr>scene = [\<lparr>geometry = ''solid tri'', selected = True\<rparr>],
                     files = [''in.stl'' \<mapsto> ''solid tri'']\<rparr>"]
    convert_step_order [where h = example_host and ?w0.0 = example_state
      and stl = "''in.stl''" and glb = "''out.glb''"
      and ?w1.0 = "\<lparr>scene = [\<lparr>geometry = ''cube'', selected = True\<rparr>],
                     files = [''in.stl'' \<mapsto> ''solid tri'']\<rparr>"
      and ?w2.0 = "\<lparr>scene = [], files = [''in.stl'' \<mapsto> ''solid tri'']\<rparr>"
      and ?w3.0 = "\<lparr>scene = [\<lparr>geometry = ''solid tri'', selected = True\<rparr>],
                     files = [''in.stl'' \<mapsto> ''solid tri'']\<rparr>"
      and ?w4.0 = "\<lparr>scene = [\<lparr>geometry = ''solid tri'', selected = True\<rparr>],
                     files = [''in.stl'' \<mapsto> ''solid tri'', ''out.glb'' \<mapsto> ''glTFsolid tri'']\<rparr>"]
  by (simp add: example_defs)

lemma convert_export_raises:
  assumes "object_select_all h SELECT w0 = Inr w1" and "object_delete h False w1 = Inr w2"
    and "wm_stl_import h s w2 = Inr w3" and "export_scene_gltf h g GLB w3 = Inl e"
  shows "convert h s g w0 =
     (Some e, [SelectAll SELECT, Delete False, StlImport s, ExportGltf g GLB], w3)"
  using assms by (simp add: convert_def clear_existing_objects_ok)

lemma convert_exported:
  assumes "object_select_all h SELECT w0 = Inr w1" and "object_delete h False w1 = Inr w2"
    and "wm_stl_import h s w2 = Inr w3" and "export_scene_gltf h g GLB w3 = Inr w4"
  shows "convert h s g w0 =
     (None,
      [SelectAll SELECT, Delete False, StlImport s, ExportGltf g GLB,
       Print (success_msg s g), Exists g] @
      (case files w4 g of
         None \<Rightarrow> [Print not_found_msg]
       | Some b \<Rightarrow> [GetSize g, Print (size_msg (file_size_mb (length b)))]),
      w4)"
  using convert_ok [OF assms]
  by (cases "files w4 g") (simp_all add: report_absent report_present)

text \<open>
  C8: the script's inputs are the two arguments that follow the first \<open>--\<close>, and a
  command line is accepted only if it has this shape. The first of the two is the source
  path: it is the path handed to the importer, and nothing else of the command line is.
  The second is the destination path: it is the path handed to the exporter, the path
  whose existence and size are then tested, and both are named in the success line.
  Whatever comes before the separator or after the two paths is not looked at: the run is
  the conversion of the first path to the second, for any host.
\<close>

theorem script_reads_two_paths:
  "(''--'' \<notin> set pre \<longrightarrow>
      argv_paths (pre @ ''--'' # src # dst # rest) = Inr (src, dst) \<and>
      script h (pre @ ''--'' # src # dst # rest) w = convert h src dst w) \<and>
   (argv_paths a = Inr (s, g) \<longrightarrow>
      (\<exists>pre' rest'. a = pre' @ ''--'' # s # g # rest' \<and> ''--'' \<notin> set pre') \<and>
      script h a w = convert h s g w) \<and>
   (''--'' \<notin> set pre \<and>
    object_select_all h SELECT w = Inr w1 \<and> object_delete h False w1 = Inr w2 \<longrightarrow>
      (\<forall>e. wm_stl_import h src w2 = Inl e \<longrightarrow>
         script h (pre @ ''--'' # src # dst # rest) w =
           (Some e, [SelectAll SELECT, Delete False, StlImport src], w2)) \<and>
      (\<forall>w3. wm_stl_import h src w2 = Inr w3 \<longrightarrow>
         (\<forall>e. export_scene_gltf h dst GLB w3 = Inl e \<longrightarrow>
            script h (pre @ ''--'' # src # dst # rest) w =
              (Some e,
               [SelectAll SELECT, Delete False, StlImport src, ExportGltf dst GLB], w3)) \<and>
         (\<forall>w4. export_scene_gltf h dst GLB w3 = Inr w4 \<longrightarrow>
            script h (pre @ ''--'' # src # dst # rest) w =
              (None,
               [SelectAll SELECT, Delete False, StlImport src, ExportGltf dst GLB,
                Print (success_msg src dst), Exists dst] @
               (case files w4 dst of
                  None \<Rightarrow> [Print not_found_msg]
                | Some b \<Rightarrow> [GetSize dst, Print (size_msg (file_size_mb (length b)))]),
               w4)))) \<and>
   (''--'' \<notin> set pre \<longrightarrow>
      prefix (fst (snd (script h (pre @ ''--'' # src # dst # rest) w)))
        [SelectAll SELECT, Delete False, StlImport src, ExportGltf dst GLB] \<or>
      (\<exists>tail. fst (snd (script h (pre @ ''--'' # src # dst # rest) w)) =
         [SelectAll SELECT, Delete False, StlImport src, ExportGltf dst GLB,
          Print (success_msg src dst), Exists dst] @ tail \<and>
         (tail = [Print not_found_msg] \<or>
          (\<exists>x. tail = [GetSize dst, Print (size_msg x)]))))"
proof -
  have parse: "''--'' \<notin> set pre \<longrightarrow>
      argv_paths (pre @ ''--'' # src # dst # rest) = Inr (src, dst) \<and>
      script h (pre @ ''--'' # src # dst # rest) w = convert h src dst w"
    by (simp add: script_def argv_paths_found)
  have shape: "argv_paths a = Inr (s, g) \<longrightarrow>
      (\<exists>pre' rest'. a = pre' @ ''--'' # s # g # rest' \<and> ''--'' \<notin> set pre') \<and>
      script h a w = convert h s g w"
    using argv_paths_shape [of a s g] by (simp add: script_def)
  have use: "''--'' \<notin> set pre \<and>
    object_select_all h SELECT w = Inr w1 \<and> object_delete h False w1 = Inr w2 \<longrightarrow>
      (\<forall>e. wm_stl_import h src w2 = Inl e \<longrightarrow>
         script h (pre @ ''--'' # src # dst # rest) w =
           (Some e, [SelectAll SELECT, Delete False, StlImport src], w2)) \<and>
      (\<forall>w3. wm_stl_import h src w2 = Inr w3 \<longrightarrow>
         (\<forall>e. export_scene_gltf h dst GLB w3 = Inl e \<longrightarrow>
            script h (pre @ ''--'' # src # dst # rest) w =
              (Some e,
               [SelectAll SELECT, Delete False, StlImport src, ExportGltf dst GLB], w3)) \<and>
         (\<forall>w4. export_scene_gltf h dst GLB w3 = Inr w4 \<longrightarrow>
            script h (pre @ ''--'' # src # dst # rest) w =
              (None,
               [SelectAll SELECT, Delete False, StlImport src, ExportGltf dst GLB,
                Print (success_msg src dst), Exists dst] @
               (case files w4 dst of
                  None \<Rightarrow> [Print not_found_msg]
                | Some b \<Rightarrow> [GetSize dst, Print (size_msg (file_size_mb (length b)))]),
               w4)))"
    using parse
    by (auto simp add: convert_import_raises convert_export_raises convert_exported)
  have order: "''--'' \<notin> set pre \<longrightarrow>
      prefix (fst (snd (script h (pre @ ''--'' # src # dst # rest) w)))
        [SelectAll SELECT, Delete False, StlImport src, ExportGltf dst GLB] \<or>
      (\<exists>tail. fst (snd (script h (pre @ ''--'' # src # dst # rest) w)) =
         [SelectAll SELECT, Delete False, StlImport src, ExportGltf dst GLB,
          Print (success_msg src dst), Exists dst] @ tail \<and>
         (tail = [Print not_found_msg] \<or>
          (\<exists>x. tail = [GetSize dst, Print (size_msg x)])))"
    using parse convert_trace_shape [of h src dst w] by auto
  from parse shape use order show ?thesis
    by blast
qed

theorem script_reads_two_paths_witness:
  "argv_paths [''blender'', ''-b'', ''--'', ''in.stl'', ''out.glb'', ''--verbose''] =
     Inr (''in.stl'', ''out.glb'') \<and>
   script example_host [''blender'', ''-b'', ''--'', ''in.stl'', ''out.glb'', ''--verbose'']
     example_state =
     (None,
      [SelectAll SELECT, Delete False, StlImport ''in.stl'', ExportGltf ''out.glb'' GLB,
       Print (success_msg ''in.stl'' ''out.glb''), Exists ''out.glb'', GetSize ''out.glb'',
       Print (size_msg (file_size_mb (length ''glTFsolid tri'')))],
      \<lparr>scene = [\<lparr>geometry = ''solid tri'', selected = True\<rparr>],
       files = [''in.stl'' \<mapsto> ''solid tri'', ''out.glb'' \<mapsto> ''glTFsolid tri'']\<rparr>)"
proof -
  let ?w1 = "\<lparr>scene = [\<lparr>geometry = ''cube'', selected = True\<rparr>],
              files = [''in.stl'' \<mapsto> ''solid tri'']\<rparr>"
  let ?w2 = "\<lparr>scene = [], files = [''in.stl'' \<mapsto> ''solid tri'']\<rparr>"
  let ?w3 = "\<lparr>scene = [\<lparr>geometry = ''solid tri'', selected = True\<rparr>],
              files = [''in.stl'' \<mapsto> ''solid tri'']\<rparr>"
  let ?w4 = "\<lparr>scene = [\<lparr>geometry = ''solid tri'', selected = True\<rparr>],
              files = [''in.stl'' \<mapsto> ''solid tri'', ''out.glb'' \<mapsto> ''glTFsolid tri'']\<rparr>"
  have sep: "''--'' \<notin> set [''blender'', ''-b'']"
    by simp
  have 1: "object_select_all example_host SELECT example_state = Inr ?w1"
    by (simp add: example_defs)
  have 2: "object_delete example_host False ?w1 = Inr ?w2"
    by (simp add: example_defs)
  have 3: "wm_stl_import example_host ''in.stl'' ?w2 = Inr ?w3"
    by (simp add: example_defs)
  have 4: "export_scene_gltf example_host ''out.glb'' GLB ?w3 = Inr ?w4"
    by (simp add: example_defs)
  have 5: "files ?w4 ''out.glb'' = Some ''glTFsolid tri''"
    by simp
  note t = script_reads_two_paths [where pre = "[''blender'', ''-b'']" and src = "''in.stl''"
      and dst = "''out.glb''" and rest = "[''--verbose'']" and h = example_host
      and w = example_state and ?w1.0 = ?w1 and ?w2.0 = ?w2]
  from t sep have "argv_paths ([''blender'', ''-b''] @ ''--'' # ''in.stl'' # ''out.glb'' # [''--verbose''])
      = Inr (''in.stl'', ''out.glb'')"
    by blast
  moreover from t sep 1 2 3 4
  have "script example_host
      ([''blender'', ''-b''] @ ''--'' # ''in.stl'' # ''out.glb'' # [''--verbose'']) example_state =
      (None,
       [SelectAll SELECT, Delete False, StlImport ''in.stl'', ExportGltf ''out.glb'' GLB,
        Print (success_msg ''in.stl'' ''out.glb''), Exists ''out.glb''] @
       (case files ?w4 ''out.glb'' of
          None \<Rightarrow> [Print not_found_msg]
        | Some b \<Rightarrow> [GetSize ''out.glb'', Print (size_msg (file_size_mb (length b)))]),
       ?w4)"
    by blast
  ultimately show ?thesis
    unfolding 5 by simp
qed

section \<open>The size report\<close>

lemma bit_length_le: "n < 2 ^ k \<Longrightarrow> bit_length n \<le> k"
proof (induction k arbitrary: n)
  case 0
  then show ?case by (simp add: bit_length.simps)
next
  case (Suc k)
  then have "n div 2 < 2 ^ k" by simp
  from Suc.IH [OF this] show ?case
    by (subst bit_length.simps) simp
qed

lemma bit_length_power: "bit_length (2 ^ k) = Suc k"
  by (induction k) (simp_all add: bit_length.simps [of "2 * _"] bit_length.simps [of 1]
    bit_length.simps [of 0] bit_length.simps [of "Suc 0"])

lemma to_double_exact:
  assumes "n \<le> 2 ^ 53"
  shows "to_double n = n"
proof (cases "n = 2 ^ 53")
  case True
  have "bit_length n - 53 = 1"
    unfolding True bit_length_power by simp
  then show ?thesis
    by (simp add: to_double_def div_half_even_def True)
next
  case False
  with assms have "n < 2 ^ 53" by simp
  then have "bit_length n - 53 = 0"
    using bit_length_le [of n 53] by simp
  then show ?thesis
    by (simp add: to_double_def div_half_even_def)
qed

lemma hundredths_nearest:
  assumes "0 \<le> x"
  shows "\<bar>of_nat (hundredths x) - x * 100\<bar> \<le> 1 / 2"
proof -
  define f where "f = \<lfloor>x * 100\<rfloor>"
  define d where "d = x * 100 - of_int f"
  from assms have f0: "0 \<le> f" by (simp add: f_def)
  have d: "0 \<le> d" "d < 1"
    unfolding d_def f_def by linarith+
  have x: "x * 100 = of_int f + d" by (simp add: d_def)
  have h: "hundredths x =
      nat (if d < 1 / 2 then f else if 1 / 2 < d then f + 1 else if even f then f else f + 1)"
    by (simp add: hundredths_def Let_def f_def d_def)
  have n0: "(of_nat (nat f) :: rat) = of_int f"
    using f0 by simp
  have n1: "(of_nat (nat (f + 1)) :: rat) = of_int f + 1"
    using f0 by (simp add: nat_add_distrib)
  show ?thesis
    unfolding h x using d by (auto simp add: n0 n1)
qed

lemma file_size_mb_exact: "n \<le> 2 ^ 53 \<Longrightarrow> file_size_mb n = of_nat n / 1048576"
  by (simp add: file_size_mb_def to_double_exact)

lemma hundredths_file_size:
  assumes "n \<le> 2 ^ 53"
  shows "\<bar>of_nat (hundredths (file_size_mb n)) / 100 - of_nat n / 1048576\<bar> \<le> (1 / 200 :: rat)"
proof -
  have "\<bar>of_nat (hundredths (file_size_mb n)) - file_size_mb n * 100\<bar> \<le> 1 / 2"
    by (rule hundredths_nearest) (simp add: file_size_mb_def)
  then show ?thesis
    unfolding file_size_mb_exact [OF assms] by (simp add: field_simps abs_le_iff)
qed

lemma hundredths_of_quotient:
  assumes "0 < b"
  shows "hundredths (of_nat m / of_nat b) = div_half_even (100 * m) b"
proof -
  define q where "q = (100 * m) div b"
  define r where "r = (100 * m) mod b"
  have m: "100 * m = q * b + r" by (simp add: q_def r_def)
  have rb: "r < b" using assms by (simp add: r_def)
  have x: "(of_nat m / of_nat b :: rat) * 100 = of_nat q + of_nat r / of_nat b"
  proof -
    have "(of_nat m / of_nat b :: rat) * 100 = of_nat (100 * m) / of_nat b" by simp
    also have "\<dots> = of_nat (q * b + r) / of_nat b" by (simp only: m)
    also have "\<dots> = of_nat q + of_nat r / of_nat b"
      using assms by (simp add: field_simps)
    finally show ?thesis .
  qed
  have fl: "\<lfloor>(of_nat m / of_nat b :: rat) * 100\<rfloor> = int q"
  proof -
    have "(of_nat m / of_nat b :: rat) * 100 = of_nat (100 * m) / of_nat b" by simp
    then show ?thesis
      unfolding q_def by (simp only: floor_divide_of_nat_eq)
  qed
  have d: "(of_nat m / of_nat b :: rat) * 100 - of_int (int q) = of_nat r / of_nat b"
    using x by simp
  have lt: "(of_nat r / of_nat b :: rat) < 1 / 2 \<longleftrightarrow> 2 * r < b"
  proof -
    have "(of_nat r / of_nat b :: rat) < 1 / 2 \<longleftrightarrow> (of_nat (2 * r) :: rat) < of_nat b"
      using assms by (simp add: field_simps)
    then show ?thesis by (simp only: of_nat_less_iff)
  qed
  have gt: "1 / 2 < (of_nat r / of_nat b :: rat) \<longleftrightarrow> b < 2 * r"
  proof -
    have "1 / 2 < (of_nat r / of_nat b :: rat) \<longleftrightarrow> (of_nat b :: rat) < of_nat (2 * r)"
      using assms by (simp add: field_simps)
    then show ?thesis by (simp only: of_nat_less_iff)
  qed
  have "hundredths (of_nat m / of_nat b) =
      nat (if 2 * r < b then int q else if b < 2 * r then int q + 1
           else if even q then int q else int q + 1)"
    unfolding hundredths_def Let_def fl d lt gt by simp
  also have "\<dots> = div_half_even (100 * m) b"
    by (simp add: div_half_even_def Let_def q_def r_def nat_add_distrib)
  finally show ?thesis .
qed

lemma hundredths_file_size_mb:
  "hundredths (file_size_mb n) = div_half_even (100 * to_double n) 1048576"
  using hundredths_of_quotient [of 1048576 "to_double n"] by (simp add: file_size_mb_def)

lemma bit_length_large: "bit_length 9007199254756721 = 54"
  by (simp add: bit_length.simps)

lemma hundredths_large: "hundredths (file_size_mb 9007199254756721) = 858993459201"
  by (simp add: hundredths_file_size_mb to_double_def bit_length_large div_half_even_def)

lemma format_large: "format_2f (file_size_mb 9007199254756721) = ''8589934592.01''"
  by (simp add: format_2f_def hundredths_large decimal.simps digit_def)

lemma format_2mb: "format_2f (file_size_mb 2097152) = ''2.00''"
  by (simp add: format_2f_def hundredths_file_size_mb to_double_exact div_half_even_def
      decimal.simps digit_def)

lemma format_tie: "format_2f (file_size_mb 131072) = ''0.12''"
  by (simp add: format_2f_def hundredths_file_size_mb to_double_exact div_half_even_def
      decimal.simps digit_def)

text \<open>
  C2, as the specification states it, for a file of any size: the reported value is the
  size over 1,048,576 rounded to two decimals. It fails for a file of
  9,007,199,254,756,721 bytes (above \<open>2 ^ 53\<close>): the size is first rounded to a double,
  and the line printed is 8589934592.01, while the size over 1,048,576 is
  8589934592.0150003..., whose nearest hundredth is 8589934592.02.
\<close>

theorem size_report_large_file_counterexample:
  "format_2f (file_size_mb 9007199254756721) = ''8589934592.01'' \<and>
   \<not> \<bar>of_nat (hundredths (file_size_mb 9007199254756721)) / 100
        - of_nat 9007199254756721 / 1048576\<bar> \<le> (1 / 200 :: rat)"
proof -
  note h = hundredths_large
  have "format_2f (file_size_mb 9007199254756721) = ''8589934592.01''"
    by (rule format_large)
  moreover have "\<not> \<bar>of_nat (858993459201 :: nat) / 100
        - of_nat 9007199254756721 / 1048576\<bar> \<le> (1 / 200 :: rat)"
    by simp
  ultimately show ?thesis
    unfolding h by blast
qed

lemma hundredths_exact:
  assumes "n \<le> 2 ^ 53"
  shows "hundredths (file_size_mb n) = div_half_even (100 * n) 1048576"
  using to_double_exact [OF assms] by (simp add: hundredths_file_size_mb)

lemma div_half_even_tie:
  "2 * (a mod b) = b \<Longrightarrow> even (div_half_even a b) \<and>
     (div_half_even a b = a div b \<or> div_half_even a b = a div b + 1)"
  by (simp add: div_half_even_def Let_def)

lemma format_tie_up: "format_2f (file_size_mb 393216) = ''0.38''"
  by (simp add: format_2f_def hundredths_file_size_mb to_double_exact div_half_even_def
      decimal.simps digit_def)

text \<open>
  C2, amended: for a destination file of \<open>n \<le> 2 ^ 53\<close> bytes, the number of hundredths
  printed is \<open>100 * n / 1048576\<close> rounded to the nearest integer, an exact tie going to the
  even neighbour: it differs from \<open>n / 1048576\<close> by at most half a hundredth, it is the
  quotient rounded down when the remainder is below half of 1048576 and rounded up when it
  is above, and on an exact tie it is the even one of the two (131,072 bytes print as
  0.12, 393,216 bytes as 0.38). The size line of the report is made of these hundredths,
  two of them after the point, and a file of 2,097,152 bytes is reported as \<open>2.00 MB\<close>.
\<close>

theorem size_report_rounds:
  "(n \<le> 2 ^ 53 \<longrightarrow>
      \<bar>of_nat (hundredths (file_size_mb n)) / 100 - of_nat n / 1048576\<bar> \<le> (1 / 200 :: rat)) \<and>
   (files w glb = Some b \<longrightarrow>
      snd (report stl glb w) =
        [Print (success_msg stl glb), Exists glb, GetSize glb,
         Print (size_msg (file_size_mb (length b)))]) \<and>
   size_msg x =
     [CHR 0xF0, CHR 0x9F, CHR 0x93, CHR 0xA6] @ '' GLB file size: '' @
     decimal (hundredths x div 100) @ ''.'' @
     [digit (hundredths x mod 100 div 10), digit (hundredths x mod 10)] @ '' MB'' \<and>
   size_msg (file_size_mb 2097152) =
     [CHR 0xF0, CHR 0x9F, CHR 0x93, CHR 0xA6] @ '' GLB file size: 2.00 MB'' \<and>
   format_2f (file_size_mb 131072) = ''0.12'' \<and>
   (n \<le> 2 ^ 53 \<longrightarrow>
      hundredths (file_size_mb n) = div_half_even (100 * n) 1048576 \<and>
      (2 * ((100 * n) mod 1048576) < 1048576 \<longrightarrow>
         hundredths (file_size_mb n) = (100 * n) div 1048576) \<and>
      (1048576 < 2 * ((100 * n) mod 1048576) \<longrightarrow>
         hundredths (file_size_mb n) = (100 * n) div 1048576 + 1) \<and>
      (2 * ((100 * n) mod 1048576) = 1048576 \<longrightarrow>
         even (hundredths (file_size_mb n)) \<and>
         (hundredths (file_size_mb n) = (100 * n) div 1048576 \<or>
          hundredths (file_size_mb n) = (100 * n) div 1048576 + 1))) \<and>
   format_2f (file_size_mb 393216) = ''0.38''"
proof -
  have tie: "n \<le> 2 ^ 53 \<longrightarrow>
      hundredths (file_size_mb n) = div_half_even (100 * n) 1048576 \<and>
      (2 * ((100 * n) mod 1048576) < 1048576 \<longrightarrow>
         hundredths (file_size_mb n) = (100 * n) div 1048576) \<and>
      (1048576 < 2 * ((100 * n) mod 1048576) \<longrightarrow>
         hundredths (file_size_mb n) = (100 * n) div 1048576 + 1) \<and>
      (2 * ((100 * n) mod 1048576) = 1048576 \<longrightarrow>
         even (hundredths (file_size_mb n)) \<and>
         (hundredths (file_size_mb n) = (100 * n) div 1048576 \<or>
          hundredths (file_size_mb n) = (100 * n) div 1048576 + 1))"
  proof
    assume n: "n \<le> 2 ^ 53"
    note h = hundredths_exact [OF n]
    have lo: "2 * ((100 * n) mod 1048576) < 1048576 \<longrightarrow>
        div_half_even (100 * n) 1048576 = (100 * n) div 1048576"
      by (simp add: div_half_even_def Let_def)
    have hi: "1048576 < 2 * ((100 * n) mod 1048576) \<longrightarrow>
        div_half_even (100 * n) 1048576 = (100 * n) div 1048576 + 1"
      by (simp add: div_half_even_def Let_def)
    have mid: "2 * ((100 * n) mod 1048576) = 1048576 \<longrightarrow>
        even (div_half_even (100 * n) 1048576) \<and>
        (div_half_even (100 * n) 1048576 = (100 * n) div 1048576 \<or>
         div_half_even (100 * n) 1048576 = (100 * n) div 1048576 + 1)"
      using div_half_even_tie [of "100 * n" 1048576] by blast
    show "hundredths (file_size_mb n) = div_half_even (100 * n) 1048576 \<and>
      (2 * ((100 * n) mod 1048576) < 1048576 \<longrightarrow>
         hundredths (file_size_mb n) = (100 * n) div 1048576) \<and>
      (1048576 < 2 * ((100 * n) mod 1048576) \<longrightarrow>
         hundredths (file_size_mb n) = (100 * n) div 1048576 + 1) \<and>
      (2 * ((100 * n) mod 1048576) = 1048576 \<longrightarrow>
         even (hundredths (file_size_mb n)) \<and>
         (hundredths (file_size_mb n) = (100 * n) div 1048576 \<or>
          hundredths (file_size_mb n) = (100 * n) div 1048576 + 1))"
      unfolding h using lo hi mid by blast
  qed
  have up: "format_2f (file_size_mb 393216) = ''0.38''"
    by (rule format_tie_up)
  have "size_msg (file_size_mb 2097152) =
      [CHR 0xF0, CHR 0x9F, CHR 0x93, CHR 0xA6] @ '' GLB file size: 2.00 MB''"
    by (simp add: size_msg_def format_2mb)
  moreover have "format_2f (file_size_mb 131072) = ''0.12''"
    by (rule format_tie)
  moreover have "size_msg x =
     [CHR 0xF0, CHR 0x9F, CHR 0x93, CHR 0xA6] @ '' GLB file size: '' @
     decimal (hundredths x div 100) @ ''.'' @
     [digit (hundredths x mod 100 div 10), digit (hundredths x mod 10)] @ '' MB''"
    by (simp add: size_msg_def format_2f_def Let_def)
  moreover have "n \<le> 2 ^ 53 \<longrightarrow>
      \<bar>of_nat (hundredths (file_size_mb n)) / 100 - of_nat n / 1048576\<bar> \<le> (1 / 200 :: rat)"
    using hundredths_file_size [of n] by blast
  moreover have "files w glb = Some b \<longrightarrow>
      snd (report stl glb w) =
        [Print (success_msg stl glb), Exists glb, GetSize glb,
         Print (size_msg (file_size_mb (length b)))]"
    by (simp add: report_present)
  ultimately show ?thesis
    using tie up by blast
qed

theorem size_report_rounds_witness:
  "\<bar>of_nat (hundredths (file_size_mb 2097152)) / 100 - of_nat 2097152 / 1048576\<bar>
     \<le> (1 / 200 :: rat) \<and>
   snd (report ''in.stl'' ''in.stl'' example_state) =
     [Print (success_msg ''in.stl'' ''in.stl''), Exists ''in.stl'', GetSize ''in.stl'',
      Print (size_msg (file_size_mb (length ''solid tri'')))] \<and>
   hundredths (file_size_mb 2097152) = div_half_even (100 * 2097152) 1048576 \<and>
   2 * ((100 * 393216) mod 1048576) = (1048576 :: nat) \<and>
   hundredths (file_size_mb 393216) = 38 \<and>
   1048576 < 2 * ((100 * 5243) mod 1048576 :: nat) \<and>
   hundredths (file_size_mb 5243) = 1"
  using size_report_rounds [where n = 2097152 and w = example_state and glb = "''in.stl''"
      and b = "''solid tri''" and stl = "''in.stl''"]
    size_report_rounds [where n = 393216] size_report_rounds [where n = 5243]
  by (simp add: example_state_def div_half_even_def)

text \<open>The tie rule at a size whose hundredths fall exactly between two: 393,216 bytes
  are 37.5 hundredths, and the even neighbour 38 is printed.\<close>

lemma hundredths_tie_up: "hundredths (file_size_mb 393216) = 38"
  by (simp add: hundredths_file_size_mb to_double_exact div_half_even_def)

section \<open>The conversion over the host of the specification\<close>

lemma host_clear:
  assumes "object_select_all h = host_select_all" and "object_delete h = host_delete"
  shows "clear_existing_objects h w = (None, [SelectAll SELECT, Delete False], w\<lparr>scene := []\<rparr>)"
proof -
  have "filter (\<lambda>ob. \<not> selected ob) (map (\<lambda>ob. ob\<lparr>selected := True\<rparr>) (scene w)) = []"
    by (induction "scene w") (simp_all add: filter_empty_conv)
  then show ?thesis
    by (simp add: clear_existing_objects_def assms host_select_all_def host_delete_def)
qed

lemma host_convert:
  assumes "object_select_all h = host_select_all" and "object_delete h = host_delete"
  shows "convert h stl glb w =
     (case wm_stl_import h stl (w\<lparr>scene := []\<rparr>) of
        Inl e \<Rightarrow> (Some e, [SelectAll SELECT, Delete False, StlImport stl], w\<lparr>scene := []\<rparr>)
      | Inr w3 \<Rightarrow>
          (case export_scene_gltf h glb GLB w3 of
             Inl e \<Rightarrow>
               (Some e, [SelectAll SELECT, Delete False, StlImport stl, ExportGltf glb GLB], w3)
           | Inr w4 \<Rightarrow>
               (fst (report stl glb w4),
                [SelectAll SELECT, Delete False, StlImport stl, ExportGltf glb GLB]
                  @ snd (report stl glb w4),
                w4)))"
  by (simp add: convert_def host_clear [OF assms] split: sum.splits prod.splits)

text \<open>
  C3: with the host's \<open>select_all\<close> and \<open>delete\<close> as the specification describes them
  (and any importer and exporter), the clear step always returns, and leaves a scene
  with no objects and the files untouched. It is this state that the importer receives,
  and the exporter receives what the importer returned; so a run from a scene that holds
  objects is the same as the run from the empty scene.
\<close>

theorem clear_leaves_empty_scene:
  "object_select_all h = host_select_all \<and> object_delete h = host_delete \<longrightarrow>
     clear_existing_objects h w =
       (None, [SelectAll SELECT, Delete False], w\<lparr>scene := []\<rparr>) \<and>
     scene (snd (snd (clear_existing_objects h w))) = [] \<and>
     (\<forall>e. wm_stl_import h stl (w\<lparr>scene := []\<rparr>) = Inl e \<longrightarrow>
        convert h stl glb w =
          (Some e, [SelectAll SELECT, Delete False, StlImport stl], w\<lparr>scene := []\<rparr>)) \<and>
     (\<forall>w3 w4. wm_stl_import h stl (w\<lparr>scene := []\<rparr>) = Inr w3 \<and>
        export_scene_gltf h glb GLB w3 = Inr w4 \<longrightarrow>
        snd (snd (convert h stl glb w)) = w4) \<and>
     convert h stl glb w = convert h stl glb (w\<lparr>scene := []\<rparr>)"
proof (intro impI, elim conjE)
  assume a: "object_select_all h = host_select_all" "object_delete h = host_delete"
  show "clear_existing_objects h w =
       (None, [SelectAll SELECT, Delete False], w\<lparr>scene := []\<rparr>) \<and>
     scene (snd (snd (clear_existing_objects h w))) = [] \<and>
     (\<forall>e. wm_stl_import h stl (w\<lparr>scene := []\<rparr>) = Inl e \<longrightarrow>
        convert h stl glb w =
          (Some e, [SelectAll SELECT, Delete False, StlImport stl], w\<lparr>scene := []\<rparr>)) \<and>
     (\<forall>w3 w4. wm_stl_import h stl (w\<lparr>scene := []\<rparr>) = Inr w3 \<and>
        export_scene_gltf h glb GLB w3 = Inr w4 \<longrightarrow>
        snd (snd (convert h stl glb w)) = w4) \<and>
     convert h stl glb w = convert h stl glb (w\<lparr>scene := []\<rparr>)"
    by (simp add: host_clear [OF a] host_convert [OF a] split: sum.splits)
qed

theorem clear_leaves_empty_scene_witness:
  "clear_existing_objects example_host example_state =
     (None, [SelectAll SELECT, Delete False], example_state\<lparr>scene := []\<rparr>) \<and>
   scene (snd (snd (clear_existing_objects example_host example_state))) = [] \<and>
   convert example_host ''in.stl'' ''out.glb'' example_state =
     convert example_host ''in.stl'' ''out.glb'' (example_state\<lparr>scene := []\<rparr>)"
  using clear_leaves_empty_scene [where h = example_host and w = example_state
      and stl = "''in.stl''" and glb = "''out.glb''"]
  by (simp add: example_host_def spec_host_def)

lemma spec_host_clear [simp]:
  "object_select_all (spec_host c) = host_select_all"
  "object_delete (spec_host c) = host_delete"
  by (simp_all add: spec_host_def)

text \<open>The run over the host of the specification, written out.\<close>

lemma spec_convert:
  "convert (spec_host c) stl glb w =
     (case files w stl of
        None \<Rightarrow>
          (Some ImportError, [SelectAll SELECT, Delete False, StlImport stl], w\<lparr>scene := []\<rparr>)
      | Some b \<Rightarrow>
          if \<not> readable c stl then
            (Some ImportError, [SelectAll SELECT, Delete False, StlImport stl],
             w\<lparr>scene := []\<rparr>)
          else
            (case parse_stl c b of
               None \<Rightarrow>
                 (Some ImportError, [SelectAll SELECT, Delete False, StlImport stl],
                  w\<lparr>scene := []\<rparr>)
             | Some obs \<Rightarrow>
                 if \<not> writable c glb then
                   (Some ExportError,
                    [SelectAll SELECT, Delete False, StlImport stl, ExportGltf glb GLB],
                    w\<lparr>scene := obs\<rparr>)
                 else
                   (case encode_gltf c GLB obs of
                      None \<Rightarrow>
                        (Some ExportError,
                         [SelectAll SELECT, Delete False, StlImport stl, ExportGltf glb GLB],
                         w\<lparr>scene := obs\<rparr>)
                    | Some out \<Rightarrow>
                        (None,
                         [SelectAll SELECT, Delete False, StlImport stl, ExportGltf glb GLB,
                          Print (success_msg stl glb), Exists glb, GetSize glb,
                          Print (size_msg (file_size_mb (length out)))],
                         w\<lparr>scene := obs, files := (files w)(glb \<mapsto> out)\<rparr>))))"
  by (simp add: host_convert spec_host_def host_stl_import_def host_export_gltf_def
      report_present split: option.splits)

text \<open>
  C4: over the host of the specification, when the source file is missing, unreadable or
  not valid for its format, the run ends with \<open>ImportError\<close>, uncaught; the trace ends
  with the import call, so the exporter is never called, and the files are untouched.
  Over any host, an exception raised by the importer ends the run in the same way.
\<close>

theorem convert_import_error:
  "(files w stl = None \<or> \<not> readable c stl \<or>
      (\<exists>b. files w stl = Some b \<and> parse_stl c b = None) \<longrightarrow>
      convert (spec_host c) stl glb w =
        (Some ImportError, [SelectAll SELECT, Delete False, StlImport stl],
         w\<lparr>scene := []\<rparr>) \<and>
      (\<forall>p fmt. ExportGltf p fmt \<notin> set (fst (snd (convert (spec_host c) stl glb w)))) \<and>
      files (snd (snd (convert (spec_host c) stl glb w))) = files w) \<and>
   (object_select_all h SELECT w0 = Inr w1 \<and> object_delete h False w1 = Inr w2 \<and>
      wm_stl_import h stl w2 = Inl e \<longrightarrow>
      convert h stl glb w0 = (Some e, [SelectAll SELECT, Delete False, StlImport stl], w2))"
proof -
  have "convert (spec_host c) stl glb w =
        (Some ImportError, [SelectAll SELECT, Delete False, StlImport stl],
         w\<lparr>scene := []\<rparr>)"
    if "files w stl = None \<or> \<not> readable c stl \<or>
      (\<exists>b. files w stl = Some b \<and> parse_stl c b = None)"
    using that by (auto simp add: spec_convert split: option.splits)
  then show ?thesis
    by (auto simp add: convert_import_raises)
qed

theorem convert_import_error_witness:
  "convert example_host ''missing.stl'' ''out.glb'' example_state =
     (Some ImportError, [SelectAll SELECT, Delete False, StlImport ''missing.stl''],
      example_state\<lparr>scene := []\<rparr>) \<and>
   files (snd (snd (convert example_host ''missing.stl'' ''out.glb'' example_state))) =
     files example_state"
  using convert_import_error [where c = example_codec and w = example_state
      and stl = "''missing.stl''" and glb = "''out.glb''"]
  by (simp add: example_host_def example_state_def)

lemma spec_convert_ok:
  assumes "files w stl = Some b" and "readable c stl" and "parse_stl c b = Some obs"
    and "writable c glb" and "encode_gltf c GLB obs = Some out"
  shows "convert (spec_host c) stl glb w =
     (None,
      [SelectAll SELECT, Delete False, StlImport stl, ExportGltf glb GLB,
       Print (success_msg stl glb), Exists glb, GetSize glb,
       Print (size_msg (file_size_mb (length out)))],
      w\<lparr>scene := obs, files := (files w)(glb \<mapsto> out)\<rparr>)"
  using assms by (simp add: spec_convert)

text \<open>
  C7: over the host of the specification, a run on a valid source and a writable
  destination ends normally, leaves at the destination the exporter's encoding of the
  objects parsed from the source file, whatever the destination held before, and prints
  the size of that encoding. A second run with the same two paths, started where the
  first ended, does the same when the destination is not the source itself: same trace,
  same size line, same destination file, same final state. More generally the run is
  determined by the two paths and the contents of the source file: from two states that
  agree on the source file, the runs end the same way, with the same trace (so the same
  size line) and the same scene, and, when they end normally, the same destination file;
  and a second run started where the first ended repeats the first, also when the first
  ended with an exception.
\<close>

theorem convert_deterministic:
  "(files w stl = files w' stl \<longrightarrow>
      fst (convert (spec_host c) stl glb w) = fst (convert (spec_host c) stl glb w') \<and>
      fst (snd (convert (spec_host c) stl glb w)) =
        fst (snd (convert (spec_host c) stl glb w')) \<and>
      scene (snd (snd (convert (spec_host c) stl glb w))) =
        scene (snd (snd (convert (spec_host c) stl glb w'))) \<and>
      (fst (convert (spec_host c) stl glb w) = None \<longrightarrow>
         files (snd (snd (convert (spec_host c) stl glb w))) glb =
           files (snd (snd (convert (spec_host c) stl glb w'))) glb)) \<and>
   (stl \<noteq> glb \<longrightarrow>
      convert (spec_host c) stl glb (snd (snd (convert (spec_host c) stl glb w))) =
        convert (spec_host c) stl glb w) \<and>
   (files w stl = Some b \<and> readable c stl \<and> parse_stl c b = Some obs \<and>
    writable c glb \<and> encode_gltf c GLB obs = Some out \<longrightarrow>
      convert (spec_host c) stl glb w =
        (None,
         [SelectAll SELECT, Delete False, StlImport stl, ExportGltf glb GLB,
          Print (success_msg stl glb), Exists glb, GetSize glb,
          Print (size_msg (file_size_mb (length out)))],
         w\<lparr>scene := obs, files := (files w)(glb \<mapsto> out)\<rparr>) \<and>
      files (snd (snd (convert (spec_host c) stl glb w))) glb = Some out \<and>
      (stl \<noteq> glb \<longrightarrow>
         convert (spec_host c) stl glb (w\<lparr>scene := obs, files := (files w)(glb \<mapsto> out)\<rparr>) =
           (None,
            [SelectAll SELECT, Delete False, StlImport stl, ExportGltf glb GLB,
             Print (success_msg stl glb), Exists glb, GetSize glb,
             Print (size_msg (file_size_mb (length out)))],
            w\<lparr>scene := obs, files := (files w)(glb \<mapsto> out)\<rparr>)))"
proof -
  have two: "files w stl = files w' stl \<longrightarrow>
      fst (convert (spec_host c) stl glb w) = fst (convert (spec_host c) stl glb w') \<and>
      fst (snd (convert (spec_host c) stl glb w)) =
        fst (snd (convert (spec_host c) stl glb w')) \<and>
      scene (snd (snd (convert (spec_host c) stl glb w))) =
        scene (snd (snd (convert (spec_host c) stl glb w'))) \<and>
      (fst (convert (spec_host c) stl glb w) = None \<longrightarrow>
         files (snd (snd (convert (spec_host c) stl glb w))) glb =
           files (snd (snd (convert (spec_host c) stl glb w'))) glb)"
  proof (intro conjI impI)
    assume a: "files w stl = files w' stl"
    show "fst (convert (spec_host c) stl glb w) = fst (convert (spec_host c) stl glb w')"
      using a by (simp add: spec_convert split: option.splits)
    show "fst (snd (convert (spec_host c) stl glb w)) =
          fst (snd (convert (spec_host c) stl glb w'))"
      using a by (simp add: spec_convert split: option.splits)
    show "scene (snd (snd (convert (spec_host c) stl glb w))) =
          scene (snd (snd (convert (spec_host c) stl glb w')))"
      using a by (simp add: spec_convert split: option.splits)
    show "files (snd (snd (convert (spec_host c) stl glb w))) glb =
             files (snd (snd (convert (spec_host c) stl glb w'))) glb"
      if "fst (convert (spec_host c) stl glb w) = None"
      using a that by (auto simp add: spec_convert split: option.splits if_splits)
  qed
  have again: "stl \<noteq> glb \<longrightarrow>
      convert (spec_host c) stl glb (snd (snd (convert (spec_host c) stl glb w))) =
        convert (spec_host c) stl glb w"
  proof
    assume "stl \<noteq> glb"
    then show "convert (spec_host c) stl glb (snd (snd (convert (spec_host c) stl glb w))) =
          convert (spec_host c) stl glb w"
      by (subst (2) spec_convert) (auto simp add: spec_convert split: option.splits)
  qed
  have ok: "files w stl = Some b \<and> readable c stl \<and> parse_stl c b = Some obs \<and>
    writable c glb \<and> encode_gltf c GLB obs = Some out \<longrightarrow>
      convert (spec_host c) stl glb w =
        (None,
         [SelectAll SELECT, Delete False, StlImport stl, ExportGltf glb GLB,
          Print (success_msg stl glb), Exists glb, GetSize glb,
          Print (size_msg (file_size_mb (length out)))],
         w\<lparr>scene := obs, files := (files w)(glb \<mapsto> out)\<rparr>) \<and>
      files (snd (snd (convert (spec_host c) stl glb w))) glb = Some out \<and>
      (stl \<noteq> glb \<longrightarrow>
         convert (spec_host c) stl glb (w\<lparr>scene := obs, files := (files w)(glb \<mapsto> out)\<rparr>) =
           (None,
            [SelectAll SELECT, Delete False, StlImport stl, ExportGltf glb GLB,
             Print (success_msg stl glb), Exists glb, GetSize glb,
             Print (size_msg (file_size_mb (length out)))],
            w\<lparr>scene := obs, files := (files w)(glb \<mapsto> out)\<rparr>))"
  proof (intro impI, elim conjE)
    assume a: "files w stl = Some b" "readable c stl" "parse_stl c b = Some obs"
      "writable c glb" "encode_gltf c GLB obs = Some out"
    note first = spec_convert_ok [OF a]
    have second: "convert (spec_host c) stl glb
        (w\<lparr>scene := obs, files := (files w)(glb \<mapsto> out)\<rparr>) =
           (None,
            [SelectAll SELECT, Delete False, StlImport stl, ExportGltf glb GLB,
             Print (success_msg stl glb), Exists glb, GetSize glb,
             Print (size_msg (file_size_mb (length out)))],
            w\<lparr>scene := obs, files := (files w)(glb \<mapsto> out)\<rparr>)"
      if "stl \<noteq> glb"
      using a that by (simp add: spec_convert)
    show "convert (spec_host c) stl glb w =
        (None,
         [SelectAll SELECT, Delete False, StlImport stl, ExportGltf glb GLB,
          Print (success_msg stl glb), Exists glb, GetSize glb,
          Print (size_msg (file_size_mb (length out)))],
         w\<lparr>scene := obs, files := (files w)(glb \<mapsto> out)\<rparr>) \<and>
      files (snd (snd (convert (spec_host c) stl glb w))) glb = Some out \<and>
      (stl \<noteq> glb \<longrightarrow>
         convert (spec_host c) stl glb (w\<lparr>scene := obs, files := (files w)(glb \<mapsto> out)\<rparr>) =
           (None,
            [SelectAll SELECT, Delete False, StlImport stl, ExportGltf glb GLB,
             Print (success_msg stl glb), Exists glb, GetSize glb,
             Print (size_msg (file_size_mb (length out)))],
            w\<lparr>scene := obs, files := (files w)(glb \<mapsto> out)\<rparr>))"
      using second by (simp add: first)
  qed
  from two again ok show ?thesis
    by blast
qed

theorem convert_deterministic_witness:
  "convert example_host ''in.stl'' ''out.glb''
     (example_state\<lparr>files := (files example_state)(''out.glb'' \<mapsto> ''old contents'')\<rparr>) =
     (None,
      [SelectAll SELECT, Delete False, StlImport ''in.stl'', ExportGltf ''out.glb'' GLB,
       Print (success_msg ''in.stl'' ''out.glb''), Exists ''out.glb'', GetSize ''out.glb'',
       Print (size_msg (file_size_mb (length ''glTFsolid tri'')))],
      example_state\<lparr>scene := [\<lparr>geometry = ''solid tri'', selected = True\<rparr>],
        files := (files example_state)(''out.glb'' \<mapsto> ''glTFsolid tri'')\<rparr>) \<and>
   convert example_host ''in.stl'' ''out.glb''
     (example_state\<lparr>scene := [\<lparr>geometry = ''solid tri'', selected = True\<rparr>],
        files := (files example_state)(''out.glb'' \<mapsto> ''glTFsolid tri'')\<rparr>) =
     (None,
      [SelectAll SELECT, Delete False, StlImport ''in.stl'', ExportGltf ''out.glb'' GLB,
       Print (success_msg ''in.stl'' ''out.glb''), Exists ''out.glb'', GetSize ''out.glb'',
       Print (size_msg (file_size_mb (length ''glTFsolid tri'')))],
      example_state\<lparr>scene := [\<lparr>geometry = ''solid tri'', selected = True\<rparr>],
        files := (files example_state)(''out.glb'' \<mapsto> ''glTFsolid tri'')\<rparr>) \<and>
   fst (snd (convert example_host ''in.stl'' ''out.glb'' example_state)) =
     fst (snd (convert example_host ''in.stl'' ''out.glb''
       (example_state\<lparr>files := (files example_state)(''out.glb'' \<mapsto> ''old contents'')\<rparr>)))"
proof -
  let ?w = "example_state\<lparr>files := (files example_state)(''out.glb'' \<mapsto> ''old contents'')\<rparr>"
  let ?obs = "[\<lparr>geometry = ''solid tri'', selected = True\<rparr>]"
  have src: "files ?w ''in.stl'' = Some ''solid tri''"
    by (simp add: example_state_def)
  have same: "files ?w ''in.stl'' = files example_state ''in.stl''"
    by (simp add: example_state_def)
  have r: "readable example_codec ''in.stl''" and wr: "writable example_codec ''out.glb''"
    by (simp_all add: example_codec_def)
  have p: "parse_stl example_codec ''solid tri'' = Some ?obs"
    by (simp add: example_codec_def)
  have e: "encode_gltf example_codec GLB ?obs = Some ''glTFsolid tri''"
    by (simp add: example_codec_def)
  have ne: "''in.stl'' \<noteq> ''out.glb''"
    by simp
  note t = convert_deterministic [where c = example_codec and w = ?w and w' = example_state
      and stl = "''in.stl''" and glb = "''out.glb''" and b = "''solid tri''" and obs = ?obs
      and out = "''glTFsolid tri''"]
  note ok = t [THEN conjunct2, THEN conjunct2, THEN mp,
      OF conjI [OF src conjI [OF r conjI [OF p conjI [OF wr e]]]]]
  note first = ok [THEN conjunct1]
  note second = ok [THEN conjunct2, THEN conjunct2, THEN mp, OF ne]
  note third = t [THEN conjunct1, THEN mp, OF same, THEN conjunct2, THEN conjunct1]
  have st: "?w\<lparr>scene := ?obs, files := (files ?w)(''out.glb'' \<mapsto> ''glTFsolid tri'')\<rparr> =
      example_state\<lparr>scene := ?obs,
        files := (files example_state)(''out.glb'' \<mapsto> ''glTFsolid tri'')\<rparr>"
    by simp
  from first second third show ?thesis
    unfolding st example_host_def by simp
qed

text \<open>
  What the destination holds after a run that ends normally over the host of the
  specification: the exporter's encoding of the objects parsed from the source file.
  Whether that encoding is empty is a property of the exporter alone; the script only
  tests that the file exists.
\<close>

lemma spec_convert_destination:
  assumes "fst (convert (spec_host c) stl glb w) = None"
  shows "\<exists>b obs out. files w stl = Some b \<and> parse_stl c b = Some obs \<and>
     encode_gltf c GLB obs = Some out \<and>
     files (snd (snd (convert (spec_host c) stl glb w))) glb = Some out"
  using assms by (auto simp add: spec_convert split: option.splits if_splits)

end
